theory Spec2Isabelle
  imports Main "HOL-Library.Word"
begin

section \<open>Python values\<close>

text \<open>
  A Python \<^verbatim>\<open>str\<close> is a sequence of Unicode code points. Literals of the source are
  ASCII and are written \<open>str ''...''\<close>.
\<close>

type_synonym pystr = "nat list"

definition str :: "string \<Rightarrow> pystr" where
  "str cs = map of_char cs"

text \<open>
  \<^verbatim>\<open>str.isspace\<close> of one code point: U+0009..U+000D, U+001C..U+0020, U+0085, U+00A0,
  U+1680, U+2000..U+200A, U+2028, U+2029, U+202F, U+205F, U+3000.
\<close>

definition isspace :: "nat \<Rightarrow> bool" where
  "isspace c \<longleftrightarrow>
     (9 \<le> c \<and> c \<le> 13) \<or> (28 \<le> c \<and> c \<le> 32) \<or> c = 133 \<or> c = 160 \<or> c = 5760 \<or>
     (8192 \<le> c \<and> c \<le> 8202) \<or> c = 8232 \<or> c = 8233 \<or> c = 8239 \<or> c = 8287 \<or> c = 12288"

text \<open>\<^verbatim>\<open>s.strip()\<close>: leading and trailing whitespace removed.\<close>

definition strip :: "pystr \<Rightarrow> pystr" where
  "strip s = rev (dropWhile isspace (rev (dropWhile isspace s)))"

text \<open>
  What \<^verbatim>\<open>json.loads\<close> returns, and what a payload dictionary holds. A dictionary is
  its items in insertion order, looked up with \<open>map_of\<close>; a float is its 64 bits.
\<close>

datatype json =
    JNull
  | JBool bool
  | JInt int
  | JFloat "64 word"
  | JStr pystr
  | JList "json list"
  | JDict "(pystr \<times> json) list"

section \<open>Exceptions\<close>

text \<open>Exceptions of the libraries and of the interpreter that cross this module.\<close>

datatype lib_error =
    ClientError
  | TimeoutError
  | JSONDecodeError
  | AttributeError
  | IndexError
  | KeyError
  | TypeError

text \<open>
  The two messages of \<^verbatim>\<open>ApiCallFailedException\<close>, by the number each formats:
  \<^verbatim>\<open>Max re-authentication attempts (n) reached.\<close> and \<^verbatim>\<open>Command failed with HTTP s.\<close>
\<close>

datatype failure = MaxReauth int | HttpStatus int

text \<open>
  The module's exception classes. \<open>LoginFailedException\<close> carries the status of its
  message; \<open>ApiCallFailedException\<close> carries its message and its cause
  (\<^verbatim>\<open>raise ... from e\<close>), if any.
\<close>

datatype exn =
    LoginFailedException int
  | NoSessionCookieException
  | ApiCallFailedException failure "exn option"
  | SessionExpiredException
  | SessionNotInitializedException
  | LibError lib_error

section \<open>The retry decorator\<close>

text \<open>
  An awaited call is a function of the state that returns a value or the exception it
  raised, and the state it leaves.
\<close>

type_synonym ('s, 'a) action = "'s \<Rightarrow> (exn + 'a) \<times> 's"

text \<open>\<^verbatim>\<open>range(n)\<close>\<close>

definition py_range :: "int \<Rightarrow> int list" where
  "py_range n = [0..n - 1]"

text \<open>
  The body of \<^verbatim>\<open>wrapper\<close>: the \<^verbatim>\<open>for\<close> loop over the attempts still to make, then the
  \<^verbatim>\<open>raise\<close> after it. \<open>login\<close> is \<^verbatim>\<open>self._async_login\<close>, \<open>store\<close> the assignment to
  \<^verbatim>\<open>self._session_cookie\<close>, \<open>func\<close> the wrapped coroutine with its arguments.
\<close>

fun reauth_loop ::
  "('s, pystr) action \<Rightarrow> (pystr \<Rightarrow> 's \<Rightarrow> 's) \<Rightarrow> int \<Rightarrow> ('s, 'a) action \<Rightarrow> int list \<Rightarrow> ('s, 'a) action"
where
  "reauth_loop login store max_retries func [] s =
     (Inl (ApiCallFailedException (MaxReauth max_retries) None), s)"
| "reauth_loop login store max_retries func (attempt # rest) s =
     (case func s of
        (Inr v, s1) \<Rightarrow> (Inr v, s1)
      | (Inl e, s1) \<Rightarrow>
          if e = SessionExpiredException then
            if attempt < max_retries then
              (case login s1 of
                 (Inl e2, s2) \<Rightarrow> (Inl e2, s2)
               | (Inr cookie, s2) \<Rightarrow>
                   reauth_loop login store max_retries func rest (store cookie s2))
            else (Inl (ApiCallFailedException (MaxReauth max_retries) (Some e)), s1)
          else (Inl e, s1))"

definition reauth_retry ::
  "('s, pystr) action \<Rightarrow> (pystr \<Rightarrow> 's \<Rightarrow> 's) \<Rightarrow> int \<Rightarrow> ('s, 'a) action \<Rightarrow> ('s, 'a) action"
where
  "reauth_retry login store max_retries func s =
     reauth_loop login store max_retries func (py_range (max_retries + 1)) s"

section \<open>Dictionaries and subscripts\<close>

text \<open>\<^verbatim>\<open>d[k] = v\<close> on a dictionary: the value replaced in place, or the item appended.\<close>

fun dict_set :: "('k \<times> 'v) list \<Rightarrow> 'k \<Rightarrow> 'v \<Rightarrow> ('k \<times> 'v) list" where
  "dict_set [] k v = [(k, v)]"
| "dict_set ((k', v') # d) k v = (if k' = k then (k', v) # d else (k', v') # dict_set d k v)"

text \<open>\<^verbatim>\<open>d.setdefault(k, v)\<close>, for the dictionary it leaves.\<close>

definition setdefault :: "('k \<times> 'v) list \<Rightarrow> 'k \<Rightarrow> 'v \<Rightarrow> ('k \<times> 'v) list" where
  "setdefault d k v = (case map_of d k of None \<Rightarrow> d @ [(k, v)] | Some _ \<Rightarrow> d)"

text \<open>
  \<^verbatim>\<open>x.get(k, default)\<close> on a value of \<^verbatim>\<open>json.loads\<close>: only a dictionary has the
  method.
\<close>

definition get :: "json \<Rightarrow> pystr \<Rightarrow> json \<Rightarrow> exn + json" where
  "get x k dflt =
     (case x of
        JDict d \<Rightarrow> Inr (case map_of d k of None \<Rightarrow> dflt | Some v \<Rightarrow> v)
      | _ \<Rightarrow> Inl (LibError AttributeError))"

text \<open>
  \<^verbatim>\<open>x[0]\<close>: the first element of a list, the first character of a string, a
  \<^verbatim>\<open>KeyError\<close> on a dictionary (its keys are strings), a \<^verbatim>\<open>TypeError\<close> elsewhere.
\<close>

fun subscript0 :: "json \<Rightarrow> exn + json" where
  "subscript0 (JList []) = Inl (LibError IndexError)"
| "subscript0 (JList (x # xs)) = Inr x"
| "subscript0 (JStr []) = Inl (LibError IndexError)"
| "subscript0 (JStr (c # cs)) = Inr (JStr [c])"
| "subscript0 (JDict d) = Inl (LibError KeyError)"
| "subscript0 x = Inl (LibError TypeError)"

section \<open>The transport and the world\<close>

text \<open>The \<^verbatim>\<open>data\<close> argument of \<^verbatim>\<open>post\<close>: a string, or the fields of a form.\<close>

datatype form = Text pystr | Fields "(pystr \<times> pystr) list"

text \<open>One call of \<^verbatim>\<open>ClientSession.post\<close>; \<open>via\<close> is the session object it is called on.\<close>

record request =
  via :: nat
  url :: pystr
  data :: form
  headers :: "(pystr \<times> pystr) list"
  allow_redirects :: bool

text \<open>
  What the module reads of a response: \<^verbatim>\<open>resp.status\<close>, \<^verbatim>\<open>resp.headers.get\<close> and
  the string \<^verbatim>\<open>await resp.text()\<close>.
\<close>

record response =
  status :: int
  resp_headers :: "pystr \<Rightarrow> pystr option"
  resp_text :: pystr

text \<open>
  A request ends in a response, or in an exception of the transport (an
  \<^verbatim>\<open>aiohttp.ClientError\<close>, the \<^verbatim>\<open>TimeoutError\<close> of \<^verbatim>\<open>asyncio.timeout(10)\<close>, ...) raised by
  \<^verbatim>\<open>post\<close> or while the body is read. The handlers \<^verbatim>\<open>except (...) as e\<close> of the module log
  the exception and raise it again, so an exception is passed on as it is; what is
  written to the log is not part of the model.
\<close>

datatype outcome = Response response | Fails lib_error

text \<open>The device and the network: the outcome of a request, given the requests before it.\<close>

type_synonym server = "request list \<Rightarrow> request \<Rightarrow> outcome"

text \<open>
  The world outside the client: the requests issued so far (oldest first), the session
  objects that were closed, and the number of session objects the module created.
\<close>

record world =
  http_log :: "request list"
  closed :: "nat set"
  created :: nat

definition post :: "server \<Rightarrow> request \<Rightarrow> world \<Rightarrow> outcome \<times> world" where
  "post srv rq w = (srv (http_log w) rq, w\<lparr>http_log := http_log w @ [rq]\<rparr>)"

definition HTTP_HEADERS :: "(pystr \<times> pystr) list" where
  "HTTP_HEADERS =
     [(str ''Content-Type'', str ''application/x-www-form-urlencoded''),
      (str ''Accept'', str ''application/json''),
      (str ''User-Agent'', str ''pymhihvac'')]"

section \<open>The client\<close>

text \<open>The attributes of \<^verbatim>\<open>MHIHVACLocalAPI\<close>, without their leading underscore.\<close>

record client =
  username :: pystr
  password :: pystr
  api_login_url :: pystr
  api_url :: pystr
  session :: "nat option"
  session_cookie :: "pystr option"
  session_created_internally :: bool

type_synonym state = "client \<times> world"

text \<open>\<^verbatim>\<open>__init__\<close>; a new \<^verbatim>\<open>aiohttp.ClientSession()\<close> is the next object of the world.\<close>

definition init :: "pystr \<Rightarrow> pystr \<Rightarrow> pystr \<Rightarrow> nat option \<Rightarrow> world \<Rightarrow> state" where
  "init host usr pwd sess w =
     (let c = \<lparr>username = usr, password = pwd,
                api_login_url = str ''http://'' @ host @ str ''/login.asp'',
                api_url = str ''http://'' @ host @ str ''/json/group_list_json.asp'',
                session = sess, session_cookie = None,
                session_created_internally = False\<rparr>
      in case sess of
           None \<Rightarrow>
             (c\<lparr>session := Some (created w), session_created_internally := True\<rparr>,
              w\<lparr>created := created w + 1\<rparr>)
         | Some _ \<Rightarrow> (c, w))"

definition close_session :: "state \<Rightarrow> state" where
  "close_session st =
     (case st of (c, w) \<Rightarrow>
        (case session c of
           Some sid \<Rightarrow>
             if session_created_internally c
             then (c\<lparr>session := None\<rparr>, w\<lparr>closed := insert sid (closed w)\<rparr>)
             else (c, w)
         | None \<Rightarrow> (c, w)))"

subsection \<open>Login\<close>

definition login_request :: "client \<Rightarrow> nat \<Rightarrow> request" where
  "login_request c sid =
     \<lparr>via = sid, url = api_login_url c,
      data = Fields [(str ''Id'', username c), (str ''Password'', password c)],
      headers = HTTP_HEADERS, allow_redirects = False\<rparr>"

text \<open>
  \<^verbatim>\<open>_async_login\<close>, under the name \<open>async_login_impl\<close>; the public \<^verbatim>\<open>async_login\<close> only
  awaits it.
\<close>

definition async_login_impl :: "server \<Rightarrow> (state, pystr) action" where
  "async_login_impl srv st =
     (case st of (c, w) \<Rightarrow>
        (case session c of
           None \<Rightarrow> (Inl SessionNotInitializedException, (c, w))
         | Some sid \<Rightarrow>
             (case post srv (login_request c sid) w of
                (Fails e, w1) \<Rightarrow> (Inl (LibError e), (c, w1))
              | (Response resp, w1) \<Rightarrow>
                  if status resp \<noteq> 302 then (Inl (LoginFailedException (status resp)), (c, w1))
                  else
                    (case resp_headers resp (str ''Set-Cookie'') of
                       None \<Rightarrow> (Inl NoSessionCookieException, (c, w1))
                     | Some cookie \<Rightarrow>
                         if cookie = [] then (Inl NoSessionCookieException, (c, w1))
                         else (Inr cookie, (c, w1))))))"

definition async_login :: "server \<Rightarrow> (state, pystr) action" where
  "async_login srv st = async_login_impl srv st"

text \<open>The assignment \<^verbatim>\<open>self._session_cookie = ...\<close> of the decorator.\<close>

definition store_cookie :: "pystr \<Rightarrow> state \<Rightarrow> state" where
  "store_cookie cookie st = (case st of (c, w) \<Rightarrow> (c\<lparr>session_cookie := Some cookie\<rparr>, w))"

text \<open>\<^verbatim>\<open>@reauth_retry()\<close> on a method of the client: the default is three retries.\<close>

definition reauth_retry_default :: "server \<Rightarrow> (state, 'a) action \<Rightarrow> (state, 'a) action" where
  "reauth_retry_default srv func = reauth_retry (async_login_impl srv) store_cookie 3 func"

subsection \<open>Read state\<close>

text \<open>
  Lines 137 and 138 of \<^verbatim>\<open>async_get_raw_data\<close>: a client whose cookie is \<^verbatim>\<open>None\<close> or
  the empty string logs in first and keeps the cookie. The value is the cookie the client
  then holds.
\<close>

definition bootstrap :: "server \<Rightarrow> (state, pystr) action" where
  "bootstrap srv st =
     (case st of (c, w) \<Rightarrow>
        (case session_cookie c of
           None \<Rightarrow>
             (case async_login srv (c, w) of
                (Inl e, st1) \<Rightarrow> (Inl e, st1)
              | (Inr cookie, st1) \<Rightarrow> (Inr cookie, store_cookie cookie st1))
         | Some held \<Rightarrow>
             if held = [] then
               (case async_login srv (c, w) of
                  (Inl e, st1) \<Rightarrow> (Inl e, st1)
                | (Inr cookie, st1) \<Rightarrow> (Inr cookie, store_cookie cookie st1))
             else (Inr held, (c, w))))"

definition read_request :: "client \<Rightarrow> nat \<Rightarrow> pystr \<Rightarrow> request" where
  \<open>read_request c sid cookie =
     \<lparr>via = sid, url = api_url c,
      data = Text (str ''={"GetReqGroupData":{"FloorNo":["1"]}}''),
      headers = dict_set HTTP_HEADERS (str ''Cookie'') cookie, allow_redirects = True\<rparr>\<close>

text \<open>
  Lines 149 to 155: from the parsed body to the value returned, or the exception raised.
\<close>

definition group_data :: "json \<Rightarrow> exn + json" where
  "group_data parsed =
     (case get parsed (str ''GetResGroupData'') (JDict []) of
        Inl e \<Rightarrow> Inl e
      | Inr res \<Rightarrow>
          (case get res (str ''FloorData'') (JList [JDict []]) of
             Inl e \<Rightarrow> Inl e
           | Inr floors \<Rightarrow>
               (case subscript0 floors of
                  Inl e \<Rightarrow> Inl e
                | Inr floor_data \<Rightarrow>
                    (case get floor_data (str ''FloorNo'') JNull of
                       Inl e \<Rightarrow> Inl e
                     | Inr floor_no \<Rightarrow>
                         if floor_no = JStr (str ''-1'') then Inl SessionExpiredException
                         else get floor_data (str ''GroupData'') (JDict [])))))"

text \<open>
  The coroutine that \<^verbatim>\<open>@reauth_retry()\<close> wraps into \<^verbatim>\<open>async_get_raw_data\<close>. \<open>loads\<close> is
  \<^verbatim>\<open>json.loads\<close>: the value parsed, or \<open>None\<close> where it raises \<^verbatim>\<open>JSONDecodeError\<close>.
\<close>

definition async_get_raw_data_func ::
  "server \<Rightarrow> (pystr \<Rightarrow> json option) \<Rightarrow> (state, json) action"
where
  "async_get_raw_data_func srv loads st =
     (case st of (c, w) \<Rightarrow>
        (case session c of
           None \<Rightarrow> (Inl SessionNotInitializedException, (c, w))
         | Some sid \<Rightarrow>
             (case bootstrap srv (c, w) of
                (Inl e, st1) \<Rightarrow> (Inl e, st1)
              | (Inr cookie, (c1, w1)) \<Rightarrow>
                  (case post srv (read_request c1 sid cookie) w1 of
                     (Fails e, w2) \<Rightarrow> (Inl (LibError e), (c1, w2))
                   | (Response resp, w2) \<Rightarrow>
                       (case loads (resp_text resp) of
                          None \<Rightarrow> (Inl (LibError JSONDecodeError), (c1, w2))
                        | Some parsed \<Rightarrow> (group_data parsed, (c1, w2)))))))"

definition async_get_raw_data ::
  "server \<Rightarrow> (pystr \<Rightarrow> json option) \<Rightarrow> (state, json) action"
where
  "async_get_raw_data srv loads = reauth_retry_default srv (async_get_raw_data_func srv loads)"

subsection \<open>Send command\<close>

text \<open>The argument of \<^verbatim>\<open>_async_send_command\<close>: a dictionary, or any other object.\<close>

datatype 'o payload = Dict "(pystr \<times> json) list" | NotDict 'o

text \<open>
  \<open>dumps\<close> is \<^verbatim>\<open>json.dumps\<close>; the cookie header is set when \<^verbatim>\<open>self._session_cookie\<close> is
  neither \<^verbatim>\<open>None\<close> nor the empty string.
\<close>

definition command_request :: "(json \<Rightarrow> pystr) \<Rightarrow> client \<Rightarrow> nat \<Rightarrow> (pystr \<times> json) list \<Rightarrow> request" where
  "command_request dumps c sid d =
     \<lparr>via = sid, url = api_url c,
      data = Text (str ''='' @ dumps (JDict d)),
      headers =
        (case session_cookie c of
           None \<Rightarrow> HTTP_HEADERS
         | Some cookie \<Rightarrow>
             if cookie = [] then HTTP_HEADERS
             else dict_set HTTP_HEADERS (str ''Cookie'') cookie),
      allow_redirects = True\<rparr>"

text \<open>The coroutine that \<^verbatim>\<open>@reauth_retry()\<close> wraps into \<^verbatim>\<open>_async_send_command\<close>.\<close>

definition async_send_command_func ::
  "server \<Rightarrow> (json \<Rightarrow> pystr) \<Rightarrow> (pystr \<Rightarrow> json option) \<Rightarrow> 'o payload \<Rightarrow> (state, json) action"
where
  "async_send_command_func srv dumps loads payload st =
     (case st of (c, w) \<Rightarrow>
        (case session c of
           None \<Rightarrow> (Inl SessionNotInitializedException, (c, w))
         | Some sid \<Rightarrow>
             (case payload of
                NotDict _ \<Rightarrow>
                  (Inr (JDict [(str ''_async_send_command'',
                                JStr (str ''Payload is not a dictionary''))]), (c, w))
              | Dict d \<Rightarrow>
                  (case post srv (command_request dumps c sid d) w of
                     (Fails e, w1) \<Rightarrow> (Inl (LibError e), (c, w1))
                   | (Response resp, w1) \<Rightarrow>
                       if status resp \<noteq> 200 then
                         (Inl (ApiCallFailedException (HttpStatus (status resp)) None), (c, w1))
                       else if strip (resp_text resp) = [] then
                         (Inl SessionExpiredException, (c, w1))
                       else
                         (case loads (resp_text resp) of
                            None \<Rightarrow> (Inl (LibError JSONDecodeError), (c, w1))
                          | Some v \<Rightarrow> (Inr v, (c, w1)))))))"

definition async_send_command ::
  "server \<Rightarrow> (json \<Rightarrow> pystr) \<Rightarrow> (pystr \<Rightarrow> json option) \<Rightarrow> 'o payload \<Rightarrow> (state, json) action"
where
  "async_send_command srv dumps loads payload =
     reauth_retry_default srv (async_send_command_func srv dumps loads payload)"

definition async_set_group_property ::
  "server \<Rightarrow> (json \<Rightarrow> pystr) \<Rightarrow> (pystr \<Rightarrow> json option) \<Rightarrow> pystr \<Rightarrow> (pystr \<times> json) list \<Rightarrow>
   (state, json) action"
where
  "async_set_group_property srv dumps loads group_no properties =
     async_send_command srv dumps loads
       (Dict [(str ''SetReqChangeGroup'',
               JDict (setdefault properties (str ''GroupNo'') (JStr group_no)))] :: unit payload)"

definition async_set_all_property ::
  "server \<Rightarrow> (json \<Rightarrow> pystr) \<Rightarrow> (pystr \<Rightarrow> json option) \<Rightarrow> (pystr \<times> json) list \<Rightarrow>
   (state, json) action"
where
  "async_set_all_property srv dumps loads properties =
     async_send_command srv dumps loads
       (Dict [(str ''SetReqChangeAll'', JDict properties)] :: unit payload)"

section \<open>Observing a run of the decorator\<close>

text \<open>
  The decorator is observed as a test observes it, through recording doubles: the wrapped
  coroutine and the login are run as they are, and each call appends its outcome to a
  trace carried beside the state.
\<close>

datatype 'a event = OpCall "exn + 'a" | LoginCall "exn + pystr"

definition traced_func :: "('s, 'a) action \<Rightarrow> ('s \<times> 'a event list, 'a) action" where
  "traced_func func st =
     (case st of (s, tr) \<Rightarrow> (case func s of (r, s1) \<Rightarrow> (r, (s1, tr @ [OpCall r]))))"

definition traced_login :: "('s, pystr) action \<Rightarrow> ('s \<times> 'a event list, pystr) action" where
  "traced_login login st =
     (case st of (s, tr) \<Rightarrow> (case login s of (r, s1) \<Rightarrow> (r, (s1, tr @ [LoginCall r]))))"

definition traced_store :: "(pystr \<Rightarrow> 's \<Rightarrow> 's) \<Rightarrow> pystr \<Rightarrow> 's \<times> 'a event list \<Rightarrow> 's \<times> 'a event list" where
  "traced_store store cookie st = (case st of (s, tr) \<Rightarrow> (store cookie s, tr))"

fun op_outcomes :: "'a event list \<Rightarrow> (exn + 'a) list" where
  "op_outcomes [] = []"
| "op_outcomes (OpCall r # es) = r # op_outcomes es"
| "op_outcomes (LoginCall r # es) = op_outcomes es"

fun login_outcomes :: "'a event list \<Rightarrow> (exn + pystr) list" where
  "login_outcomes [] = []"
| "login_outcomes (OpCall r # es) = login_outcomes es"
| "login_outcomes (LoginCall r # es) = r # login_outcomes es"

text \<open>
  What it is for an operation to raise \<open>SessionExpiredException\<close> on its first \<open>k\<close> calls
  and to return \<open>v\<close> on the next, from the state \<open>s\<close>: each of the \<open>k\<close> calls is followed by
  a login that returns a cookie, which is stored, and the next call starts from the state
  so reached. It speaks of the operation and the login only, not of the decorator.
\<close>

fun expires_then_returns ::
  "('s, pystr) action \<Rightarrow> (pystr \<Rightarrow> 's \<Rightarrow> 's) \<Rightarrow> ('s, 'a) action \<Rightarrow> nat \<Rightarrow> 's \<Rightarrow> 'a \<Rightarrow> bool"
where
  "expires_then_returns login store func 0 s v = (fst (func s) = Inr v)"
| "expires_then_returns login store func (Suc k) s v =
     (case func s of
        (Inr _, s1) \<Rightarrow> False
      | (Inl e, s1) \<Rightarrow>
          e = SessionExpiredException \<and>
          (case login s1 of
             (Inl _, s2) \<Rightarrow> False
           | (Inr cookie, s2) \<Rightarrow> expires_then_returns login store func k (store cookie s2) v))"

section \<open>Example environment\<close>

definition demo_world :: world where
  "demo_world = \<lparr>http_log = [], closed = {}, created = 0\<rparr>"

text \<open>A client on an externally supplied session, holding a cookie.\<close>

definition demo_client :: client where
  "demo_client =
     \<lparr>username = str ''user'', password = str ''secret'',
      api_login_url = str ''http://hvac/login.asp'',
      api_url = str ''http://hvac/json/group_list_json.asp'',
      session = Some 0, session_cookie = Some (str ''session=old''),
      session_created_internally = False\<rparr>"

definition no_headers :: "pystr \<Rightarrow> pystr option" where
  "no_headers name = None"

definition cookie_headers :: "pystr \<Rightarrow> pystr option" where
  "cookie_headers name = (if name = str ''Set-Cookie'' then Some (str ''session=123'') else None)"

text \<open>A device on which every session has expired at once: each login is granted, each
  command is answered with status 200 and an empty body.\<close>

definition expiring_server :: server where
  "expiring_server hist rq =
     (if url rq = str ''http://hvac/login.asp''
      then Response \<lparr>status = 302, resp_headers = cookie_headers, resp_text = []\<rparr>
      else Response \<lparr>status = 200, resp_headers = no_headers, resp_text = []\<rparr>)"

text \<open>The same device refusing every login with status 500.\<close>

definition refusing_server :: server where
  "refusing_server hist rq =
     (if url rq = str ''http://hvac/login.asp''
      then Response \<lparr>status = 500, resp_headers = no_headers, resp_text = []\<rparr>
      else Response \<lparr>status = 200, resp_headers = no_headers, resp_text = []\<rparr>)"

text \<open>
  A device that answers the first two commands with an empty body and the later ones with
  a result, granting every login; and one that answers the first command with an empty
  body and the later ones with a result, but refuses every login.
\<close>

definition twice_expiring_server :: server where
  \<open>twice_expiring_server hist rq =
     (if url rq = str ''http://hvac/login.asp''
      then Response \<lparr>status = 302, resp_headers = cookie_headers, resp_text = []\<rparr>
      else if length hist < 3
      then Response \<lparr>status = 200, resp_headers = no_headers, resp_text = []\<rparr>
      else Response \<lparr>status = 200, resp_headers = no_headers, resp_text = str ''{"ok":1}''\<rparr>)\<close>

definition locked_server :: server where
  \<open>locked_server hist rq =
     (if url rq = str ''http://hvac/login.asp''
      then Response \<lparr>status = 500, resp_headers = no_headers, resp_text = []\<rparr>
      else if hist = []
      then Response \<lparr>status = 200, resp_headers = no_headers, resp_text = []\<rparr>
      else Response \<lparr>status = 200, resp_headers = no_headers, resp_text = str ''{"ok":1}''\<rparr>)\<close>

text \<open>
  A device that answers every read with the expiry sentinel and refuses every login, and
  \<^verbatim>\<open>json.loads\<close> on the sentinel response.
\<close>

definition sentinel_text :: pystr where
  \<open>sentinel_text = str ''{"GetResGroupData":{"FloorData":[{"FloorNo":"-1"}]}}''\<close>

definition sentinel_loads :: "pystr \<Rightarrow> json option" where
  "sentinel_loads t =
     (if t = sentinel_text
      then Some (JDict [(str ''GetResGroupData'',
             JDict [(str ''FloorData'', JList [JDict [(str ''FloorNo'', JStr (str ''-1''))]])])])
      else None)"

definition sentinel_server :: server where
  "sentinel_server hist rq =
     (if url rq = str ''http://hvac/login.asp''
      then Response \<lparr>status = 500, resp_headers = no_headers, resp_text = []\<rparr>
      else Response \<lparr>status = 200, resp_headers = no_headers, resp_text = sentinel_text\<rparr>)"

text \<open>A device that answers every request with status 500.\<close>

definition failing_server :: server where
  "failing_server hist rq = Response \<lparr>status = 500, resp_headers = no_headers, resp_text = []\<rparr>"

text \<open>The read-state response of the specification's example.\<close>

definition example_text :: pystr where
  \<open>example_text = str ''{"GetResGroupData":{"FloorData":[{"FloorNo":"1","GroupData":{"test":"data"}}]}}''\<close>

text \<open>Devices with one fixed answer: the example response, a response with no floor at all,
  an accepted command, and a redirect that sets no cookie.\<close>

definition reading_server :: server where
  "reading_server hist rq = Response \<lparr>status = 200, resp_headers = no_headers, resp_text = example_text\<rparr>"

definition empty_floor_server :: server where
  \<open>empty_floor_server hist rq =
     Response \<lparr>status = 200, resp_headers = no_headers,
               resp_text = str ''{"GetResGroupData":{"FloorData":[]}}''\<rparr>\<close>

definition accepting_server :: server where
  \<open>accepting_server hist rq =
     Response \<lparr>status = 200, resp_headers = no_headers, resp_text = str ''{"ok":1}''\<rparr>\<close>

definition cookieless_server :: server where
  "cookieless_server hist rq = Response \<lparr>status = 302, resp_headers = no_headers, resp_text = []\<rparr>"

text \<open>A client that created its session itself, after \<^verbatim>\<open>close_session\<close>.\<close>

definition closed_client :: state where
  "closed_client = close_session (init (str ''hvac'') (str ''user'') (str ''secret'') None demo_world)"

text \<open>The two codec functions on the texts of the examples.\<close>

definition demo_dumps :: "json \<Rightarrow> pystr" where
  "demo_dumps v = str ''{}''"

definition demo_loads :: "pystr \<Rightarrow> json option" where
  \<open>demo_loads t =
     (if t = str ''{"ok":1}'' then Some (JDict [(str ''ok'', JInt 1)])
      else if t = example_text
      then Some (JDict [(str ''GetResGroupData'',
             JDict [(str ''FloorData'',
               JList [JDict [(str ''FloorNo'', JStr (str ''1'')),
                             (str ''GroupData'', JDict [(str ''test'', JStr (str ''data''))])]])])])
      else if t = str ''{"GetResGroupData":{"FloorData":[]}}''
      then Some (JDict [(str ''GetResGroupData'', JDict [(str ''FloorData'', JList [])])])
      else None)\<close>

section \<open>Properties of the decorator\<close>

lemma traced_func_apply:
  "traced_func func (s, tr) = (case func s of (r, s1) \<Rightarrow> (r, (s1, tr @ [OpCall r])))"
  by (simp add: traced_func_def)

lemma traced_login_apply:
  "traced_login login (s, tr) = (case login s of (r, s1) \<Rightarrow> (r, (s1, tr @ [LoginCall r])))"
  by (simp add: traced_login_def)

lemma traced_store_apply: "traced_store store cookie (s, tr) = (store cookie s, tr)"
  by (simp add: traced_store_def)

lemmas traced_apply = traced_func_apply traced_login_apply traced_store_apply

lemma traced_loop_shift:
  "reauth_loop (traced_login login) (traced_store store) n (traced_func func) as (s, tr0) =
     (case reauth_loop (traced_login login) (traced_store store) n (traced_func func) as (s, []) of
        (r, (s', ev)) \<Rightarrow> (r, (s', tr0 @ ev)))"
proof (induction as arbitrary: s tr0)
  case Nil
  show ?case by simp
next
  case (Cons a as)
  obtain x s1 where f: "func s = (x, s1)" by (cases "func s")
  obtain y s2 where l: "login s1 = (y, s2)" by (cases "login s1")
  show ?case
  proof (cases y)
    case (Inl e2)
    then show ?thesis
      by (simp add: f l traced_apply split: sum.splits)
  next
    case (Inr ck)
    note ih1 = Cons.IH [of "store ck s2" "tr0 @ [OpCall (Inl SessionExpiredException), LoginCall (Inr ck)]"]
    note ih2 = Cons.IH [of "store ck s2" "[OpCall (Inl SessionExpiredException), LoginCall (Inr ck)]"]
    show ?thesis
      by (simp add: f l Inr traced_apply ih1 ih2 split: sum.splits prod.splits)
  qed
qed

lemma traced_loop_Cons:
  assumes "reauth_loop (traced_login login) (traced_store store) n (traced_func func) (a # rest) (s, []) = (r, (s', ev))"
  shows "(\<exists>v. func s = (Inr v, s') \<and> r = Inr v \<and> ev = [OpCall (Inr v)]) \<or>
   (\<exists>e. func s = (Inl e, s') \<and> e \<noteq> SessionExpiredException \<and> r = Inl e \<and> ev = [OpCall (Inl e)]) \<or>
   (func s = (Inl SessionExpiredException, s') \<and> \<not> a < n \<and>
      r = Inl (ApiCallFailedException (MaxReauth n) (Some SessionExpiredException)) \<and>
      ev = [OpCall (Inl SessionExpiredException)]) \<or>
   (\<exists>s1 e2. func s = (Inl SessionExpiredException, s1) \<and> a < n \<and> login s1 = (Inl e2, s') \<and>
      r = Inl e2 \<and> ev = [OpCall (Inl SessionExpiredException), LoginCall (Inl e2)]) \<or>
   (\<exists>s1 ck s2 ev'. func s = (Inl SessionExpiredException, s1) \<and> a < n \<and> login s1 = (Inr ck, s2) \<and>
      reauth_loop (traced_login login) (traced_store store) n (traced_func func) rest (store ck s2, []) = (r, (s', ev')) \<and>
      ev = [OpCall (Inl SessionExpiredException), LoginCall (Inr ck)] @ ev')"
proof -
  obtain x s1 where f: "func s = (x, s1)" by (cases "func s")
  obtain y s2 where l: "login s1 = (y, s2)" by (cases "login s1")
  note sh = traced_loop_shift [of login store n func rest "store ck s2"
      "[OpCall (Inl SessionExpiredException), LoginCall (Inr ck)]" for ck]
  show ?thesis
    using assms
    by (auto simp add: f l traced_apply sh split: sum.splits prod.splits if_splits)
qed

lemma traced_loop_erase:
  "reauth_loop (traced_login login) (traced_store store) n (traced_func func) as (s, tr) = (r, (s', tr'))
   \<Longrightarrow> reauth_loop login store n func as s = (r, s')"
proof (induction as arbitrary: s tr)
  case Nil
  then show ?case by simp
next
  case (Cons a as)
  obtain x s1 where f: "func s = (x, s1)" by (cases "func s")
  obtain y s2 where l: "login s1 = (y, s2)" by (cases "login s1")
  show ?case
    using Cons.prems Cons.IH [of "store ck s2" _ for ck]
    by (auto simp add: f l traced_apply split: sum.splits if_splits)
qed

lemma upto_eq_Cons: "x # rest = [a..n] \<Longrightarrow> x = a \<and> rest = [a + 1..n] \<and> a \<le> n"
  by (subst (asm) upto.simps) (simp split: if_splits)

lemma op_outcomes_append: "op_outcomes (xs @ ys) = op_outcomes xs @ op_outcomes ys"
  by (induction xs rule: op_outcomes.induct) simp_all

lemma login_outcomes_append: "login_outcomes (xs @ ys) = login_outcomes xs @ login_outcomes ys"
  by (induction xs rule: login_outcomes.induct) simp_all

lemma upto_Cons: "a \<le> n \<Longrightarrow> [a..n] = a # [a + 1..n]"
  by (subst upto.simps) simp

lemma traced_loop_returns:
  assumes "expires_then_returns login store func k s v" and "a + int k \<le> n"
  shows "\<exists>s' ev. reauth_loop (traced_login login) (traced_store store) n (traced_func func) [a..n] (s, tr0) =
           (Inr v, (s', tr0 @ ev)) \<and>
         op_outcomes ev = replicate k (Inl SessionExpiredException) @ [Inr v] \<and>
         length (login_outcomes ev) = k"
  using assms
proof (induction k arbitrary: a s tr0)
  case 0
  obtain x s1 where f: "func s = (x, s1)" by (cases "func s")
  with "0.prems" have x: "x = Inr v" by simp
  from "0.prems" have "a \<le> n" by simp
  then have "reauth_loop (traced_login login) (traced_store store) n (traced_func func) [a..n] (s, tr0) =
      (Inr v, (s1, tr0 @ [OpCall (Inr v)]))"
    by (simp add: upto_Cons f x traced_apply)
  then show ?case by (intro exI [of _ s1] exI [of _ "[OpCall (Inr v)]"]) simp
next
  case (Suc k)
  obtain x s1 where f: "func s = (x, s1)" by (cases "func s")
  obtain y s2 where l: "login s1 = (y, s2)" by (cases "login s1")
  from Suc.prems(1) f l obtain cookie where x: "x = Inl SessionExpiredException"
    and y: "y = Inr cookie"
    and rest: "expires_then_returns login store func k (store cookie s2) v"
    by (auto split: sum.splits)
  from Suc.prems(2) have lt: "a < n" and le: "a + 1 + int k \<le> n" by simp_all
  from Suc.IH [OF rest le, of "tr0 @ [OpCall (Inl SessionExpiredException), LoginCall (Inr cookie)]"]
  obtain s' ev where run: "reauth_loop (traced_login login) (traced_store store) n (traced_func func)
        [a + 1..n] (store cookie s2, tr0 @ [OpCall (Inl SessionExpiredException), LoginCall (Inr cookie)]) =
        (Inr v, (s', (tr0 @ [OpCall (Inl SessionExpiredException), LoginCall (Inr cookie)]) @ ev))"
    and ops: "op_outcomes ev = replicate k (Inl SessionExpiredException) @ [Inr v]"
    and logins: "length (login_outcomes ev) = k"
    by blast
  from lt have "[a..n] = a # [a + 1..n]" by (simp add: upto_Cons)
  with run lt have "reauth_loop (traced_login login) (traced_store store) n (traced_func func) [a..n] (s, tr0) =
      (Inr v, (s', tr0 @ ([OpCall (Inl SessionExpiredException), LoginCall (Inr cookie)] @ ev)))"
    by (simp add: f l x y traced_apply)
  moreover have "op_outcomes ([OpCall (Inl SessionExpiredException), LoginCall (Inr cookie)] @ ev) =
      replicate (Suc k) (Inl SessionExpiredException) @ [Inr v]"
    using ops by simp
  moreover have "length (login_outcomes ([OpCall (Inl SessionExpiredException), LoginCall (Inr cookie)] @ ev)) = Suc k"
    using logins by simp
  ultimately show ?case by blast
qed


lemma traced_loop_exhausted:
  assumes "as = [a..n]"
    and "reauth_loop (traced_login login) (traced_store store) n (traced_func func) as (s, []) = (r, (s', ev))"
    and "a \<le> n"
    and "\<forall>x \<in> set (op_outcomes ev). x = Inl SessionExpiredException"
    and "\<forall>y \<in> set (login_outcomes ev). \<exists>cookie. y = Inr cookie"
  shows "r = Inl (ApiCallFailedException (MaxReauth n) (Some SessionExpiredException)) \<and>
         length (op_outcomes ev) = nat (n + 1 - a) \<and> length (login_outcomes ev) = nat (n - a)"
  using assms
proof (induction as arbitrary: a s ev)
  case Nil
  then show ?case by simp
next
  case (Cons x rest)
  from Cons.prems(1) have x: "x = a" and rest: "rest = [a + 1..n]"
    using upto_eq_Cons [of x rest a n] by simp_all
  from traced_loop_Cons [OF Cons.prems(2)] Cons.prems(3,4,5) x
  show ?case
  proof (elim disjE exE conjE, goal_cases)
    case (1 v')
    then show ?case by simp
  next
    case (2 e)
    then show ?case by simp
  next
    case 3
    then show ?case by simp
  next
    case (4 s1 e2)
    then show ?case by simp
  next
    case (5 s1 ck s2 ev')
    from "5" have run': "reauth_loop (traced_login login) (traced_store store) n (traced_func func) rest
        (store ck s2, []) = (r, (s', ev'))"
      and ev: "ev = [OpCall (Inl SessionExpiredException), LoginCall (Inr ck)] @ ev'"
      and lt: "a + 1 \<le> n"
      by simp_all
    from "5" ev have ops: "\<forall>x \<in> set (op_outcomes ev'). x = Inl SessionExpiredException"
      and logins: "\<forall>y \<in> set (login_outcomes ev'). \<exists>cookie. y = Inr cookie"
      by simp_all
    from Cons.IH [OF rest run' lt ops logins] ev lt show ?case
      by (simp add: nat_diff_distrib nat_add_distrib) arith
  qed
qed




text \<open>Evaluating the examples.\<close>

lemmas demo_defs = demo_world_def demo_client_def no_headers_def cookie_headers_def
  expiring_server_def refusing_server_def twice_expiring_server_def locked_server_def demo_dumps_def demo_loads_def

lemmas client_defs = async_login_impl_def async_login_def store_cookie_def post_def
  login_request_def command_request_def read_request_def HTTP_HEADERS_def
  async_send_command_func_def async_get_raw_data_func_def bootstrap_def group_data_def
  get_def strip_def isspace_def str_def

lemmas run_defs = reauth_retry_def py_range_def upto.simps traced_apply demo_defs client_defs failing_server_def

lemmas more_run_defs = run_defs sentinel_text_def sentinel_loads_def sentinel_server_def
  async_send_command_def async_get_raw_data_def
  reauth_retry_default_def subscript0.simps

text \<open>
  Claim C1, as stated: whenever the wrapped operation raises \<open>SessionExpiredException\<close> on
  every attempt, a decorator with \<open>max_retries = n\<close> calls it \<open>n + 1\<close> times, calls the
  login \<open>n\<close> times and raises \<open>ApiCallFailedException\<close>. It fails where a login fails:
  against a device that answers every command with an empty body and every login with
  status 500, \<^verbatim>\<open>_async_send_command\<close> (three retries) calls the operation once and the
  login once, and raises the \<open>LoginFailedException\<close> of that login.
\<close>

theorem reauth_retry_login_refused:
  "(let run = reauth_retry (traced_login (async_login_impl refusing_server)) (traced_store store_cookie) 3
         (traced_func (async_send_command_func refusing_server demo_dumps demo_loads (Dict [] :: unit payload)))
         ((demo_client, demo_world), [])
    in op_outcomes (snd (snd run)) = [Inl SessionExpiredException] \<and>
       login_outcomes (snd (snd run)) = [Inl (LoginFailedException 500)] \<and>
       fst run = Inl (LoginFailedException 500)) \<and>
   fst (async_send_command refusing_server demo_dumps demo_loads (Dict [] :: unit payload)
          (demo_client, demo_world)) = Inl (LoginFailedException 500)"
  by (simp add: run_defs async_send_command_def reauth_retry_default_def Let_def)

text \<open>
  Claim C1, amended: in a run of the decorator with \<open>max_retries = n \<ge> 0\<close> in which every
  call of the wrapped operation raised \<open>SessionExpiredException\<close> and every login called
  returned a cookie, the operation was called exactly \<open>n + 1\<close> times and the login exactly
  \<open>n\<close> times, and the decorator raised \<open>ApiCallFailedException\<close> with the count \<open>n\<close> in
  its message and the last \<open>SessionExpiredException\<close> as its cause. The decorator without
  the recording doubles ends in the same outcome and state.
\<close>

theorem reauth_retry_exhausted:
  assumes run: "reauth_retry (traced_login login) (traced_store store) n (traced_func func) (s, []) = (r, (s', tr))"
    and n: "0 \<le> n"
    and ops: "\<forall>x \<in> set (op_outcomes tr). x = Inl SessionExpiredException"
    and logins: "\<forall>y \<in> set (login_outcomes tr). \<exists>cookie. y = Inr cookie"
  shows "r = Inl (ApiCallFailedException (MaxReauth n) (Some SessionExpiredException)) \<and>
         length (op_outcomes tr) = nat (n + 1) \<and> length (login_outcomes tr) = nat n \<and>
         reauth_retry login store n func s = (r, s')"
proof -
  from run have loop: "reauth_loop (traced_login login) (traced_store store) n (traced_func func)
      [0..n] (s, []) = (r, (s', tr))"
    by (simp add: reauth_retry_def py_range_def)
  from traced_loop_exhausted [OF refl loop n ops logins]
  have "r = Inl (ApiCallFailedException (MaxReauth n) (Some SessionExpiredException))"
    and "length (op_outcomes tr) = nat (n + 1)" and "length (login_outcomes tr) = nat n"
    by simp_all
  moreover from traced_loop_erase [OF loop] have "reauth_retry login store n func s = (r, s')"
    by (simp add: reauth_retry_def py_range_def)
  ultimately show ?thesis by simp
qed

text \<open>
  The amended claim at two retries, on \<^verbatim>\<open>_async_send_command\<close>'s coroutine against a
  device that grants every login and answers every command with an empty body; and at
  no retry, where a single attempt is made and no login is called.
\<close>

theorem reauth_retry_exhausted_witness:
  "(let run = reauth_retry (traced_login (async_login_impl expiring_server)) (traced_store store_cookie) 2
         (traced_func (async_send_command_func expiring_server demo_dumps demo_loads (Dict [] :: unit payload)))
         ((demo_client, demo_world), [])
    in op_outcomes (snd (snd run)) =
         [Inl SessionExpiredException, Inl SessionExpiredException, Inl SessionExpiredException] \<and>
       login_outcomes (snd (snd run)) = [Inr (str ''session=123''), Inr (str ''session=123'')] \<and>
       fst run = Inl (ApiCallFailedException (MaxReauth 2) (Some SessionExpiredException))) \<and>
   (let run = reauth_retry (traced_login (async_login_impl refusing_server)) (traced_store store_cookie) 0
         (traced_func (async_send_command_func refusing_server demo_dumps demo_loads (Dict [] :: unit payload)))
         ((demo_client, demo_world), [])
    in op_outcomes (snd (snd run)) = [Inl SessionExpiredException] \<and>
       login_outcomes (snd (snd run)) = [] \<and>
       fst run = Inl (ApiCallFailedException (MaxReauth 0) (Some SessionExpiredException)))"
proof -
  define run where "run = reauth_retry (traced_login (async_login_impl expiring_server)) (traced_store store_cookie) 2
         (traced_func (async_send_command_func expiring_server demo_dumps demo_loads (Dict [] :: unit payload)))
         ((demo_client, demo_world), [])"
  have tr: "snd (snd run) =
     [OpCall (Inl SessionExpiredException), LoginCall (Inr (str ''session=123'')),
      OpCall (Inl SessionExpiredException), LoginCall (Inr (str ''session=123'')),
      OpCall (Inl SessionExpiredException)]"
    unfolding run_def by (simp add: run_defs)
  have eq: "reauth_retry (traced_login (async_login_impl expiring_server)) (traced_store store_cookie) 2
         (traced_func (async_send_command_func expiring_server demo_dumps demo_loads (Dict [] :: unit payload)))
         ((demo_client, demo_world), []) = (fst run, (fst (snd run), snd (snd run)))"
    by (simp add: run_def)
  have r: "fst run = Inl (ApiCallFailedException (MaxReauth 2) (Some SessionExpiredException))"
    using reauth_retry_exhausted [OF eq] by (simp add: tr)
  define run0 where "run0 = reauth_retry (traced_login (async_login_impl refusing_server)) (traced_store store_cookie) 0
         (traced_func (async_send_command_func refusing_server demo_dumps demo_loads (Dict [] :: unit payload)))
         ((demo_client, demo_world), [])"
  have tr0: "snd (snd run0) = [OpCall (Inl SessionExpiredException)]"
    unfolding run0_def by (simp add: run_defs)
  have eq0: "reauth_retry (traced_login (async_login_impl refusing_server)) (traced_store store_cookie) 0
         (traced_func (async_send_command_func refusing_server demo_dumps demo_loads (Dict [] :: unit payload)))
         ((demo_client, demo_world), []) = (fst run0, (fst (snd run0), snd (snd run0)))"
    by (simp add: run0_def)
  have r0: "fst run0 = Inl (ApiCallFailedException (MaxReauth 0) (Some SessionExpiredException))"
    using reauth_retry_exhausted [OF eq0] by (simp add: tr0)
  from r r0 show ?thesis
    unfolding Let_def run_def [symmetric] run0_def [symmetric] by (simp add: tr tr0)
qed




text \<open>
  Claim C3, as stated: an operation that raises \<open>SessionExpiredException\<close> on its first
  \<open>k \<le> n\<close> attempts and then succeeds makes the decorator return its value after \<open>k\<close>
  logins. It fails where a login fails: against a device that answers the first command
  with an empty body and any later one with a result, but refuses every login, the
  coroutine of \<^verbatim>\<open>_async_send_command\<close> raises on its first call and would return on its
  second, and the decorated method (three retries) raises the \<open>LoginFailedException\<close> of
  the one login, after one call.
\<close>

theorem send_command_relogin_refused:
  "(let func = async_send_command_func locked_server demo_dumps demo_loads (Dict [] :: unit payload);
        st = (demo_client, demo_world)
    in fst (func st) = Inl SessionExpiredException \<and>
       fst (func (snd (async_login_impl locked_server (snd (func st))))) =
         Inr (JDict [(str ''ok'', JInt 1)]) \<and>
       fst (async_login_impl locked_server (snd (func st))) = Inl (LoginFailedException 500) \<and>
       fst (reauth_retry (async_login_impl locked_server) store_cookie 3 func st) =
         Inl (LoginFailedException 500)) \<and>
   (let run = reauth_retry (traced_login (async_login_impl locked_server)) (traced_store store_cookie) 3
         (traced_func (async_send_command_func locked_server demo_dumps demo_loads (Dict [] :: unit payload)))
         ((demo_client, demo_world), [])
    in op_outcomes (snd (snd run)) = [Inl SessionExpiredException] \<and>
       login_outcomes (snd (snd run)) = [Inl (LoginFailedException 500)]) \<and>
   fst (async_send_command locked_server demo_dumps demo_loads (Dict [] :: unit payload)
          (demo_client, demo_world)) = Inl (LoginFailedException 500)"
  by (simp add: more_run_defs Let_def)

text \<open>
  Claim C3, amended: if the wrapped operation raises \<open>SessionExpiredException\<close> on its
  first \<open>k\<close> calls, each followed by a login that returns a cookie, and returns \<open>v\<close> on the
  next call, and \<open>k \<le> n\<close>, then the decorator with \<open>max_retries = n\<close> returns \<open>v\<close>, having
  called the operation exactly \<open>k + 1\<close> times and the login exactly \<open>k\<close> times. The
  decorator without the recording doubles returns \<open>v\<close> too.
\<close>

theorem reauth_retry_recovers:
  assumes "expires_then_returns login store func k s v" and "int k \<le> n"
  shows "\<exists>s' tr. reauth_retry (traced_login login) (traced_store store) n (traced_func func) (s, []) =
           (Inr v, (s', tr)) \<and>
         op_outcomes tr = replicate k (Inl SessionExpiredException) @ [Inr v] \<and>
         length (login_outcomes tr) = k \<and>
         reauth_retry login store n func s = (Inr v, s')"
proof -
  from assms(2) have "0 + int k \<le> n" by simp
  from traced_loop_returns [OF assms(1) this, of "[]"]
  obtain s' tr where run: "reauth_loop (traced_login login) (traced_store store) n (traced_func func)
        [0..n] (s, []) = (Inr v, (s', tr))"
    and ops: "op_outcomes tr = replicate k (Inl SessionExpiredException) @ [Inr v]"
    and logins: "length (login_outcomes tr) = k"
    by auto
  from traced_loop_erase [OF run] have "reauth_retry login store n func s = (Inr v, s')"
    by (simp add: reauth_retry_def py_range_def)
  with run ops logins show ?thesis
    by (auto simp add: reauth_retry_def py_range_def)
qed

text \<open>
  The amended claim C3 at \<open>k = 2\<close> and three retries: two commands answered with an empty
  body, each followed by a granted login, and the third command answered with a result.
\<close>

theorem reauth_retry_recovers_witness:
  "expires_then_returns (async_login_impl twice_expiring_server) store_cookie
     (async_send_command_func twice_expiring_server demo_dumps demo_loads (Dict [] :: unit payload))
     2 (demo_client, demo_world) (JDict [(str ''ok'', JInt 1)]) \<and>
   fst (reauth_retry (async_login_impl twice_expiring_server) store_cookie 3
     (async_send_command_func twice_expiring_server demo_dumps demo_loads (Dict [] :: unit payload))
     (demo_client, demo_world)) = Inr (JDict [(str ''ok'', JInt 1)]) \<and>
   (let run = reauth_retry (traced_login (async_login_impl twice_expiring_server)) (traced_store store_cookie) 3
         (traced_func (async_send_command_func twice_expiring_server demo_dumps demo_loads (Dict [] :: unit payload)))
         ((demo_client, demo_world), [])
    in op_outcomes (snd (snd run)) =
         [Inl SessionExpiredException, Inl SessionExpiredException, Inr (JDict [(str ''ok'', JInt 1)])] \<and>
       length (login_outcomes (snd (snd run))) = 2)"
proof -
  have h: "expires_then_returns (async_login_impl twice_expiring_server) store_cookie
     (async_send_command_func twice_expiring_server demo_dumps demo_loads (Dict [] :: unit payload))
     2 (demo_client, demo_world) (JDict [(str ''ok'', JInt 1)])"
    by (simp add: numeral_2_eq_2 more_run_defs)
  have k: "int 2 \<le> 3" by simp
  from reauth_retry_recovers [OF h k]
  obtain s' tr where
    run: "reauth_retry (traced_login (async_login_impl twice_expiring_server)) (traced_store store_cookie) 3
         (traced_func (async_send_command_func twice_expiring_server demo_dumps demo_loads (Dict [] :: unit payload)))
         ((demo_client, demo_world), []) = (Inr (JDict [(str ''ok'', JInt 1)]), (s', tr))"
    and ops: "op_outcomes tr = replicate 2 (Inl SessionExpiredException) @ [Inr (JDict [(str ''ok'', JInt 1)])]"
    and logins: "length (login_outcomes tr) = 2"
    and plain: "reauth_retry (async_login_impl twice_expiring_server) store_cookie 3
     (async_send_command_func twice_expiring_server demo_dumps demo_loads (Dict [] :: unit payload))
     (demo_client, demo_world) = (Inr (JDict [(str ''ok'', JInt 1)]), s')"
    by blast
  from ops have "op_outcomes tr =
      [Inl SessionExpiredException, Inl SessionExpiredException, Inr (JDict [(str ''ok'', JInt 1)])]"
    by (simp add: numeral_2_eq_2)
  with h run logins plain show ?thesis by (simp add: Let_def)
qed

section \<open>Properties of the client\<close>



lemma reauth_retry_default_returns:
  "func st = (Inr v, st1) \<Longrightarrow> reauth_retry_default srv func st = (Inr v, st1)"
  by (simp add: reauth_retry_default_def reauth_retry_def py_range_def upto.simps)

lemma reauth_retry_default_raises:
  "func st = (Inl e, st1) \<Longrightarrow> e \<noteq> SessionExpiredException \<Longrightarrow>
   reauth_retry_default srv func st = (Inl e, st1)"
  by (simp add: reauth_retry_default_def reauth_retry_def py_range_def upto.simps)


lemma read_func_parsed:
  assumes "session c = Some sid"
    and "bootstrap srv (c, w) = (Inr cookie, (c1, w1))"
    and "srv (http_log w1) (read_request c1 sid cookie) = Response resp"
    and "loads (resp_text resp) = Some parsed"
  shows "async_get_raw_data_func srv loads (c, w) =
    (group_data parsed, (c1, w1\<lparr>http_log := http_log w1 @ [read_request c1 sid cookie]\<rparr>))"
  using assms by (simp add: async_get_raw_data_func_def post_def)

lemmas more_defs = example_text_def reading_server_def empty_floor_server_def accepting_server_def
  cookieless_server_def closed_client_def init_def close_session_def

lemmas eval_defs = run_defs more_defs async_get_raw_data_def async_send_command_def
  reauth_retry_default_def

text \<open>
  Claim C4: when the parsed body of the read-state response is a dictionary whose
  \<^verbatim>\<open>GetResGroupData\<close> is a dictionary whose \<^verbatim>\<open>FloorData\<close> is a list that starts with a
  dictionary, the read operation looks at that first element: it raises
  \<open>SessionExpiredException\<close> if the element's \<^verbatim>\<open>FloorNo\<close> is the string \<^verbatim>\<open>-1\<close>, and otherwise
  returns the element's \<^verbatim>\<open>GroupData\<close>, or the empty dictionary if there is none; in that
  second case the decorated method returns the same value after that one request.
\<close>

theorem read_state_result:
  assumes "session c = Some sid"
    and "bootstrap srv (c, w) = (Inr cookie, (c1, w1))"
    and "srv (http_log w1) (read_request c1 sid cookie) = Response resp"
    and "loads (resp_text resp) = Some (JDict body)"
    and "map_of body (str ''GetResGroupData'') = Some (JDict res)"
    and "map_of res (str ''FloorData'') = Some (JList (JDict floor_data # others))"
  shows "async_get_raw_data_func srv loads (c, w) =
           (if map_of floor_data (str ''FloorNo'') = Some (JStr (str ''-1''))
            then Inl SessionExpiredException
            else Inr (case map_of floor_data (str ''GroupData'') of
                        None \<Rightarrow> JDict [] | Some groups \<Rightarrow> groups),
            (c1, w1\<lparr>http_log := http_log w1 @ [read_request c1 sid cookie]\<rparr>)) \<and>
         (map_of floor_data (str ''FloorNo'') \<noteq> Some (JStr (str ''-1'')) \<longrightarrow>
          async_get_raw_data srv loads (c, w) =
           (Inr (case map_of floor_data (str ''GroupData'') of
                   None \<Rightarrow> JDict [] | Some groups \<Rightarrow> groups),
            (c1, w1\<lparr>http_log := http_log w1 @ [read_request c1 sid cookie]\<rparr>)))"
proof -
  have g: "group_data (JDict body) =
      (if map_of floor_data (str ''FloorNo'') = Some (JStr (str ''-1''))
       then Inl SessionExpiredException
       else Inr (case map_of floor_data (str ''GroupData'') of
                   None \<Rightarrow> JDict [] | Some groups \<Rightarrow> groups))"
    using assms(5,6) by (auto simp add: group_data_def get_def split: option.splits)
  have f: "async_get_raw_data_func srv loads (c, w) =
      (group_data (JDict body), (c1, w1\<lparr>http_log := http_log w1 @ [read_request c1 sid cookie]\<rparr>))"
    using assms(1-4) by (rule read_func_parsed)
  show ?thesis
    using f g by (simp add: async_get_raw_data_def reauth_retry_default_returns)
qed

text \<open>Claim C4 on the specification's example response: the result is \<^verbatim>\<open>{"test": "data"}\<close>.\<close>

theorem read_state_result_witness:
  "session demo_client = Some 0 \<and>
   bootstrap reading_server (demo_client, demo_world) =
     (Inr (str ''session=old''), (demo_client, demo_world)) \<and>
   demo_loads example_text =
     Some (JDict [(str ''GetResGroupData'',
             JDict [(str ''FloorData'',
               JList [JDict [(str ''FloorNo'', JStr (str ''1'')),
                             (str ''GroupData'', JDict [(str ''test'', JStr (str ''data''))])]])])]) \<and>
   async_get_raw_data reading_server demo_loads (demo_client, demo_world) =
     (Inr (JDict [(str ''test'', JStr (str ''data''))]),
      (demo_client,
       demo_world\<lparr>http_log := [read_request demo_client 0 (str ''session=old'')]\<rparr>))"
proof -
  have h1: "session demo_client = Some 0" by (simp add: demo_defs)
  have h2: "bootstrap reading_server (demo_client, demo_world) =
     (Inr (str ''session=old''), (demo_client, demo_world))"
    by (simp add: bootstrap_def demo_client_def str_def)
  have h3: "reading_server (http_log demo_world) (read_request demo_client 0 (str ''session=old'')) =
     Response \<lparr>status = 200, resp_headers = no_headers, resp_text = example_text\<rparr>"
    by (simp add: reading_server_def)
  have h4: "demo_loads (resp_text \<lparr>status = 200, resp_headers = no_headers, resp_text = example_text\<rparr>) =
     Some (JDict [(str ''GetResGroupData'',
             JDict [(str ''FloorData'',
               JList [JDict [(str ''FloorNo'', JStr (str ''1'')),
                             (str ''GroupData'', JDict [(str ''test'', JStr (str ''data''))])]])])])"
    by (simp add: demo_loads_def example_text_def str_def)
  have h5: "map_of [(str ''GetResGroupData'',
             JDict [(str ''FloorData'',
               JList [JDict [(str ''FloorNo'', JStr (str ''1'')),
                             (str ''GroupData'', JDict [(str ''test'', JStr (str ''data''))])]])])]
             (str ''GetResGroupData'') =
      Some (JDict [(str ''FloorData'',
               JList [JDict [(str ''FloorNo'', JStr (str ''1'')),
                             (str ''GroupData'', JDict [(str ''test'', JStr (str ''data''))])]])])"
    by simp
  have h6: "map_of [(str ''FloorData'',
               JList [JDict [(str ''FloorNo'', JStr (str ''1'')),
                             (str ''GroupData'', JDict [(str ''test'', JStr (str ''data''))])]])]
             (str ''FloorData'') =
      Some (JList (JDict [(str ''FloorNo'', JStr (str ''1'')),
                          (str ''GroupData'', JDict [(str ''test'', JStr (str ''data''))])] # []))"
    by simp
  from read_state_result [where srv = reading_server and loads = demo_loads, OF h1 h2 h3 h4 h5 h6]
  have "async_get_raw_data reading_server demo_loads (demo_client, demo_world) =
     (Inr (JDict [(str ''test'', JStr (str ''data''))]),
      (demo_client,
       demo_world\<lparr>http_log := [read_request demo_client 0 (str ''session=old'')]\<rparr>))"
    by (simp add: str_def demo_world_def)
  with h1 h2 h4 show ?thesis by simp
qed



text \<open>
  Claim C6: for a login on an open session answered with a response, the login returns a
  token exactly when the status is 302 and the \<^verbatim>\<open>Set-Cookie\<close> header is present and not
  empty, and the token is that header value; any other status raises
  \<open>LoginFailedException\<close> with the status; status 302 with a missing or empty header
  raises \<open>NoSessionCookieException\<close>. The public \<^verbatim>\<open>async_login\<close> is the same function, and
  the login leaves one request in the log.
\<close>

theorem login_result:
  assumes "session c = Some sid"
    and "srv (http_log w) (login_request c sid) = Response resp"
  shows "(fst (async_login_impl srv (c, w)) = Inr token \<longleftrightarrow>
            status resp = 302 \<and> resp_headers resp (str ''Set-Cookie'') = Some token \<and> token \<noteq> []) \<and>
         (status resp \<noteq> 302 \<longrightarrow>
            fst (async_login_impl srv (c, w)) = Inl (LoginFailedException (status resp))) \<and>
         (status resp = 302 \<and>
            (resp_headers resp (str ''Set-Cookie'') = None \<or>
             resp_headers resp (str ''Set-Cookie'') = Some []) \<longrightarrow>
            fst (async_login_impl srv (c, w)) = Inl NoSessionCookieException) \<and>
         async_login srv (c, w) = async_login_impl srv (c, w) \<and>
         snd (async_login_impl srv (c, w)) = (c, w\<lparr>http_log := http_log w @ [login_request c sid]\<rparr>)"
  using assms
  by (auto simp add: async_login_impl_def async_login_def post_def split: option.splits)

text \<open>Claim C6 on three devices: a granted login, status 500, and a redirect without
  cookie.\<close>

theorem login_result_witness:
  "fst (async_login_impl expiring_server (demo_client, demo_world)) = Inr (str ''session=123'') \<and>
   fst (async_login_impl failing_server (demo_client, demo_world)) = Inl (LoginFailedException 500) \<and>
   fst (async_login_impl cookieless_server (demo_client, demo_world)) = Inl NoSessionCookieException"
proof -
  have h1: "session demo_client = Some 0" by (simp add: demo_defs)
  have a: "expiring_server (http_log demo_world) (login_request demo_client 0) =
      Response \<lparr>status = 302, resp_headers = cookie_headers, resp_text = []\<rparr>"
    by (simp add: expiring_server_def login_request_def demo_client_def)
  have b: "failing_server (http_log demo_world) (login_request demo_client 0) =
      Response \<lparr>status = 500, resp_headers = no_headers, resp_text = []\<rparr>"
    by (simp add: failing_server_def)
  have c: "cookieless_server (http_log demo_world) (login_request demo_client 0) =
      Response \<lparr>status = 302, resp_headers = no_headers, resp_text = []\<rparr>"
    by (simp add: cookieless_server_def)
  have "fst (async_login_impl expiring_server (demo_client, demo_world)) = Inr (str ''session=123'')"
    using login_result [where srv = expiring_server and token = "str ''session=123''", OF h1 a]
    by (simp add: cookie_headers_def str_def)
  moreover have "fst (async_login_impl failing_server (demo_client, demo_world)) =
      Inl (LoginFailedException 500)"
    using login_result [where srv = failing_server, OF h1 b] by simp
  moreover have "fst (async_login_impl cookieless_server (demo_client, demo_world)) =
      Inl NoSessionCookieException"
    using login_result [where srv = cookieless_server, OF h1 c] by (simp add: no_headers_def)
  ultimately show ?thesis by simp
qed

text \<open>
  Claim C7: on a client whose session is \<^verbatim>\<open>None\<close>, read state, the send primitive (for
  any payload) and both logins raise \<open>SessionNotInitializedException\<close> and leave client
  and world, hence the log of requests, as they were; and a client that created its
  session has none after \<^verbatim>\<open>close_session\<close>.
\<close>

theorem no_session_no_request:
  "(session c = None \<longrightarrow>
      async_get_raw_data srv loads (c, w) = (Inl SessionNotInitializedException, (c, w)) \<and>
      async_send_command srv dumps loads payload (c, w) = (Inl SessionNotInitializedException, (c, w)) \<and>
      async_login srv (c, w) = (Inl SessionNotInitializedException, (c, w)) \<and>
      async_login_impl srv (c, w) = (Inl SessionNotInitializedException, (c, w))) \<and>
   session (fst (close_session (init host usr pwd None w0))) = None"
proof (intro conjI impI)
  assume n: "session c = None"
  have "async_get_raw_data_func srv loads (c, w) = (Inl SessionNotInitializedException, (c, w))"
    using n by (simp add: async_get_raw_data_func_def)
  then show "async_get_raw_data srv loads (c, w) = (Inl SessionNotInitializedException, (c, w))"
    by (simp add: async_get_raw_data_def reauth_retry_default_raises)
  have "async_send_command_func srv dumps loads payload (c, w) = (Inl SessionNotInitializedException, (c, w))"
    using n by (simp add: async_send_command_func_def)
  then show "async_send_command srv dumps loads payload (c, w) = (Inl SessionNotInitializedException, (c, w))"
    by (simp add: async_send_command_def reauth_retry_default_raises)
  show "async_login_impl srv (c, w) = (Inl SessionNotInitializedException, (c, w))"
    using n by (simp add: async_login_impl_def)
  then show "async_login srv (c, w) = (Inl SessionNotInitializedException, (c, w))"
    by (simp add: async_login_def)
next
  show "session (fst (close_session (init host usr pwd None w0))) = None"
    by (simp add: init_def close_session_def Let_def)
qed

text \<open>Claim C7 on a client that created its session and closed it.\<close>

theorem no_session_no_request_witness:
  "session (fst closed_client) = None \<and>
   async_get_raw_data reading_server demo_loads closed_client =
     (Inl SessionNotInitializedException, closed_client) \<and>
   async_send_command accepting_server demo_dumps demo_loads (Dict [] :: unit payload) closed_client =
     (Inl SessionNotInitializedException, closed_client) \<and>
   async_login expiring_server closed_client = (Inl SessionNotInitializedException, closed_client) \<and>
   http_log (snd closed_client) = []"
proof -
  have n: "session (fst closed_client) = None"
    by (simp add: closed_client_def init_def close_session_def Let_def)
  have l: "http_log (snd closed_client) = []"
    by (simp add: closed_client_def init_def close_session_def Let_def demo_world_def)
  from no_session_no_request [of "fst closed_client" reading_server demo_loads "snd closed_client"
      demo_dumps "Dict [] :: unit payload"] n
  have a: "async_get_raw_data reading_server demo_loads closed_client =
     (Inl SessionNotInitializedException, closed_client)" by simp
  from no_session_no_request [of "fst closed_client" accepting_server demo_loads "snd closed_client"
      demo_dumps "Dict [] :: unit payload"] n
  have b: "async_send_command accepting_server demo_dumps demo_loads (Dict [] :: unit payload) closed_client =
     (Inl SessionNotInitializedException, closed_client)" by simp
  from no_session_no_request [of "fst closed_client" expiring_server demo_loads "snd closed_client"
      demo_dumps "Dict [] :: unit payload"] n
  have c: "async_login expiring_server closed_client = (Inl SessionNotInitializedException, closed_client)"
    by simp
  from n a b c l show ?thesis by simp
qed

text \<open>
  Claim C8: a client constructed without a session owns a new one, and \<^verbatim>\<open>close_session\<close>
  closes that session and leaves the client without session; a client constructed on a
  supplied session does not own it, and \<^verbatim>\<open>close_session\<close> changes neither the client nor
  the world; in any state with a session, the session is closed if and only if the client
  created it.
\<close>

theorem close_session_owned_only:
  "close_session (init host usr pwd None w) =
     (fst (init host usr pwd None w)\<lparr>session := None\<rparr>,
      snd (init host usr pwd None w)\<lparr>closed := insert (created w) (closed w)\<rparr>) \<and>
   session (fst (init host usr pwd None w)) = Some (created w) \<and>
   session_created_internally (fst (init host usr pwd None w)) \<and>
   session (fst (init host usr pwd (Some ext) w)) = Some ext \<and>
   \<not> session_created_internally (fst (init host usr pwd (Some ext) w)) \<and>
   snd (init host usr pwd (Some ext) w) = w \<and>
   close_session (init host usr pwd (Some ext) w) = init host usr pwd (Some ext) w \<and>
   (session c = Some sid \<longrightarrow>
      close_session (c, w) =
        (if session_created_internally c
         then (c\<lparr>session := None\<rparr>, w\<lparr>closed := insert sid (closed w)\<rparr>)
         else (c, w)))"
  by (simp add: init_def close_session_def Let_def)

text \<open>Claim C8 on the example client (supplied session) and on the closed client (own
  session, object 0).\<close>

theorem close_session_owned_only_witness:
  "session demo_client = Some 0 \<and> \<not> session_created_internally demo_client \<and>
   close_session (demo_client, demo_world) = (demo_client, demo_world) \<and>
   closed (snd closed_client) = {0} \<and> session (fst closed_client) = None"
proof -
  have h: "session demo_client = Some 0" and e: "\<not> session_created_internally demo_client"
    by (simp_all add: demo_defs)
  from close_session_owned_only [of "str ''hvac''" "str ''user''" "str ''secret''" demo_world 0
      demo_client 0] h e
  have "close_session (demo_client, demo_world) = (demo_client, demo_world)" and
    "close_session (init (str ''hvac'') (str ''user'') (str ''secret'') None demo_world) =
     (fst (init (str ''hvac'') (str ''user'') (str ''secret'') None demo_world)\<lparr>session := None\<rparr>,
      snd (init (str ''hvac'') (str ''user'') (str ''secret'') None demo_world)
        \<lparr>closed := insert (created demo_world) (closed demo_world)\<rparr>)"
    by simp_all
  with h e show ?thesis
    by (simp add: closed_client_def demo_world_def)
qed

text \<open>
  Claim C9: when the parsed body has \<^verbatim>\<open>GetResGroupData.FloorData\<close> equal to the empty
  list, the subscript raises \<^verbatim>\<open>IndexError\<close>, which the read operation does not handle: the
  coroutine and the decorated method both end in that exception, after the one request.
\<close>

theorem read_state_empty_floor_list:
  assumes "session c = Some sid"
    and "bootstrap srv (c, w) = (Inr cookie, (c1, w1))"
    and "srv (http_log w1) (read_request c1 sid cookie) = Response resp"
    and "loads (resp_text resp) = Some (JDict body)"
    and "map_of body (str ''GetResGroupData'') = Some (JDict res)"
    and "map_of res (str ''FloorData'') = Some (JList [])"
  shows "async_get_raw_data_func srv loads (c, w) =
           (Inl (LibError IndexError),
            (c1, w1\<lparr>http_log := http_log w1 @ [read_request c1 sid cookie]\<rparr>)) \<and>
         async_get_raw_data srv loads (c, w) =
           (Inl (LibError IndexError),
            (c1, w1\<lparr>http_log := http_log w1 @ [read_request c1 sid cookie]\<rparr>))"
proof -
  have g: "group_data (JDict body) = Inl (LibError IndexError)"
    using assms(5,6) by (simp add: group_data_def get_def)
  have f: "async_get_raw_data_func srv loads (c, w) =
      (group_data (JDict body), (c1, w1\<lparr>http_log := http_log w1 @ [read_request c1 sid cookie]\<rparr>))"
    using assms(1-4) by (rule read_func_parsed)
  show ?thesis
    using f g by (simp add: async_get_raw_data_def reauth_retry_default_raises)
qed

text \<open>Claim C9 on a device that answers \<^verbatim>\<open>{"GetResGroupData":{"FloorData":[]}}\<close>.\<close>

theorem read_state_empty_floor_list_witness:
  \<open>session demo_client = Some 0 \<and>
   bootstrap empty_floor_server (demo_client, demo_world) =
     (Inr (str ''session=old''), (demo_client, demo_world)) \<and>
   demo_loads (str ''{"GetResGroupData":{"FloorData":[]}}'') =
     Some (JDict [(str ''GetResGroupData'', JDict [(str ''FloorData'', JList [])])]) \<and>
   async_get_raw_data empty_floor_server demo_loads (demo_client, demo_world) =
     (Inl (LibError IndexError),
      (demo_client,
       demo_world\<lparr>http_log := [read_request demo_client 0 (str ''session=old'')]\<rparr>))\<close>
proof -
  have h1: "session demo_client = Some 0" by (simp add: demo_defs)
  have h2: "bootstrap empty_floor_server (demo_client, demo_world) =
     (Inr (str ''session=old''), (demo_client, demo_world))"
    by (simp add: bootstrap_def demo_client_def str_def)
  have h3: \<open>empty_floor_server (http_log demo_world) (read_request demo_client 0 (str ''session=old'')) =
     Response \<lparr>status = 200, resp_headers = no_headers,
               resp_text = str ''{"GetResGroupData":{"FloorData":[]}}''\<rparr>\<close>
    by (simp add: empty_floor_server_def)
  have l: \<open>demo_loads (str ''{"GetResGroupData":{"FloorData":[]}}'') =
     Some (JDict [(str ''GetResGroupData'', JDict [(str ''FloorData'', JList [])])])\<close>
    by (simp add: demo_loads_def example_text_def str_def)
  then have h4: \<open>demo_loads (resp_text \<lparr>status = 200, resp_headers = no_headers,
               resp_text = str ''{"GetResGroupData":{"FloorData":[]}}''\<rparr>) =
     Some (JDict [(str ''GetResGroupData'', JDict [(str ''FloorData'', JList [])])])\<close>
    by simp
  have h5: "map_of [(str ''GetResGroupData'', JDict [(str ''FloorData'', JList [])])]
      (str ''GetResGroupData'') = Some (JDict [(str ''FloorData'', JList [])])"
    by simp
  have h6: "map_of [(str ''FloorData'', JList [])] (str ''FloorData'') = Some (JList [])"
    by simp
  from read_state_empty_floor_list [where srv = empty_floor_server and loads = demo_loads,
      OF h1 h2 h3 h4 h5 h6]
  have "async_get_raw_data empty_floor_server demo_loads (demo_client, demo_world) =
     (Inl (LibError IndexError),
      (demo_client,
       demo_world\<lparr>http_log := [read_request demo_client 0 (str ''session=old'')]\<rparr>))"
    by (simp add: demo_world_def)
  with h1 h2 l show ?thesis by simp
qed

text \<open>
  Claim C10, as stated: for every payload that is not a dictionary the send primitive
  returns the one-entry dictionary and raises nothing. The session is checked first: on a
  client without session the same call raises \<open>SessionNotInitializedException\<close>.
\<close>

theorem send_command_not_dict_no_session:
  "session (fst closed_client) = None \<and>
   async_send_command_func failing_server demo_dumps demo_loads (NotDict (JStr (str ''off'')))
     closed_client = (Inl SessionNotInitializedException, closed_client) \<and>
   async_send_command failing_server demo_dumps demo_loads (NotDict (JStr (str ''off'')))
     closed_client = (Inl SessionNotInitializedException, closed_client)"
  by (simp add: eval_defs Let_def)

text \<open>
  Claim C10, amended: on a client whose session is present, for every payload that is not
  a dictionary the send primitive returns
  \<^verbatim>\<open>{"_async_send_command": "Payload is not a dictionary"}\<close> and leaves client and world as
  they were: no request is issued and nothing is raised.
\<close>

theorem send_command_not_dict:
  assumes "session c = Some sid"
  shows "async_send_command_func srv dumps loads (NotDict x) (c, w) =
           (Inr (JDict [(str ''_async_send_command'', JStr (str ''Payload is not a dictionary''))]),
            (c, w)) \<and>
         async_send_command srv dumps loads (NotDict x) (c, w) =
           (Inr (JDict [(str ''_async_send_command'', JStr (str ''Payload is not a dictionary''))]),
            (c, w))"
proof -
  have "async_send_command_func srv dumps loads (NotDict x) (c, w) =
           (Inr (JDict [(str ''_async_send_command'', JStr (str ''Payload is not a dictionary''))]),
            (c, w))"
    using assms by (simp add: async_send_command_func_def)
  then show ?thesis
    by (simp add: async_send_command_def reauth_retry_default_returns)
qed

text \<open>Claim C10, amended, on a string payload.\<close>

theorem send_command_not_dict_witness:
  "session demo_client = Some 0 \<and>
   async_send_command failing_server demo_dumps demo_loads (NotDict (JStr (str ''off'')))
     (demo_client, demo_world) =
     (Inr (JDict [(str ''_async_send_command'', JStr (str ''Payload is not a dictionary''))]),
      (demo_client, demo_world))"
proof -
  have h: "session demo_client = Some 0" by (simp add: demo_defs)
  from send_command_not_dict [where srv = failing_server and dumps = demo_dumps and loads = demo_loads
      and x = "JStr (str ''off'')" and w = demo_world, OF h] h
  show ?thesis by simp
qed

end
